theory Spec2Isabelle
  imports Complex_Main "HOL-Library.AList"
begin

section \<open>Python values used by the server\<close>

text \<open>
  The server is Python. A Python \<open>str\<close> is modelled as an Isabelle \<open>string\<close> whose
  characters are the code points below 256 (ASCII and Latin-1); on those, the character
  classes below are the ones CPython uses. Text with larger code points is outside the
  model.
\<close>

subsection \<open>Characters and \<open>str\<close> methods\<close>

definition py_isspace :: "char \<Rightarrow> bool" where
  \<comment> \<open>\<open>str.isspace\<close> on one character: what \<open>str.strip()\<close> removes.\<close>
  "py_isspace c =
     (let n = (of_char c :: nat)
      in (9 \<le> n \<and> n \<le> 13) \<or> (28 \<le> n \<and> n \<le> 32) \<or> n = 133 \<or> n = 160)"

definition py_strip :: "string \<Rightarrow> string" where
  \<comment> \<open>\<open>text.strip()\<close>\<close>
  "py_strip s = rev (dropWhile py_isspace (rev (dropWhile py_isspace s)))"

definition py_strip_chars :: "string \<Rightarrow> string \<Rightarrow> string" where
  \<comment> \<open>\<open>text.strip(chars)\<close>\<close>
  "py_strip_chars cs s =
     rev (dropWhile (\<lambda>c. c \<in> set cs) (rev (dropWhile (\<lambda>c. c \<in> set cs) s)))"

definition py_lower_char :: "char \<Rightarrow> char" where
  "py_lower_char c =
     (let n = (of_char c :: nat)
      in if (65 \<le> n \<and> n \<le> 90) \<or> (192 \<le> n \<and> n \<le> 222 \<and> n \<noteq> 215)
         then char_of (n + 32) else c)"

definition py_lower :: "string \<Rightarrow> string" where
  \<comment> \<open>\<open>text.lower()\<close>\<close>
  "py_lower s = map py_lower_char s"

definition is_digit :: "char \<Rightarrow> bool" where
  \<comment> \<open>the regular expression class \<open>\d\<close>\<close>
  "is_digit c = (let n = (of_char c :: nat) in 48 \<le> n \<and> n \<le> 57)"

definition is_alnum :: "char \<Rightarrow> bool" where
  \<comment> \<open>the regular expression class \<open>[a-zA-Z0-9]\<close>\<close>
  "is_alnum c =
     (let n = (of_char c :: nat)
      in (48 \<le> n \<and> n \<le> 57) \<or> (65 \<le> n \<and> n \<le> 90) \<or> (97 \<le> n \<and> n \<le> 122))"

definition digit_char :: "nat \<Rightarrow> char" where
  \<comment> \<open>the character of a digit; it is applied to numbers below 10 only\<close>
  "digit_char n = ''0123456789'' ! n"

fun dec :: "nat \<Rightarrow> string" where
  \<comment> \<open>the decimal digits of a natural number\<close>
  "dec n = (if n < 10 then [digit_char n] else dec (n div 10) @ [digit_char (n mod 10)])"

declare dec.simps [simp del]

definition fmt_02d :: "nat \<Rightarrow> string" where
  \<comment> \<open>the format specification \<open>{n:02d}\<close>: zero-padded to width 2\<close>
  "fmt_02d n = (let s = dec n in replicate (2 - length s) (CHR ''0'') @ s)"

subsection \<open>Exceptions\<close>

text \<open>
  Every \<open>raise\<close> of the source is a value of \<open>exn\<close>; all of them are subclasses of
  Python's \<open>Exception\<close>. A constructor names the raising site where the source raises
  itself and the exception class where a library call raises.
\<close>

type_synonym path = "string list"

datatype exn =
    ParseError string      \<comment> \<open>\<open>ValueError\<close> of \<open>_parse_input\<close>\<close>
  | ApiError               \<comment> \<open>\<open>ValueError("API Error: ...")\<close> of \<open>_fetch_aweme_data\<close>\<close>
  | NoPlayAddr             \<comment> \<open>\<open>ValueError\<close> of \<open>_process_single_video\<close>\<close>
  | NoMediaList            \<comment> \<open>\<open>ValueError\<close> of \<open>_process_gallery\<close>\<close>
  | NoUrlGiven path        \<comment> \<open>\<open>ValueError\<close> of \<open>_download_with_retry\<close>\<close>
  | AllUrlsFailed path     \<comment> \<open>\<open>ConnectionError\<close> of \<open>_download_with_retry\<close>\<close>
  | ExtractIdError         \<comment> \<open>\<open>ValueError\<close> of \<open>save_new_data\<close>\<close>
  | HttpError              \<comment> \<open>a failed request, status or body of \<open>aiohttp\<close>\<close>
  | AttributeError
  | TypeError
  | OSError
  | SQLAlchemyError
  | JSONDecodeError
  | PathValueError         \<comment> \<open>\<open>ValueError\<close> of \<open>Path.with_suffix\<close> on an empty name\<close>
  | OtherError string

definition ebind :: "exn + 'a \<Rightarrow> ('a \<Rightarrow> exn + 'b) \<Rightarrow> exn + 'b" where
  \<comment> \<open>sequencing: the first exception ends the computation\<close>
  "ebind m f = (case m of Inl e \<Rightarrow> Inl e | Inr x \<Rightarrow> f x)"

subsection \<open>JSON documents\<close>

text \<open>
  What \<open>json.load\<close> and \<open>response.json()\<close> return. Numbers are the integers (a float
  is outside the model); an object is the list of its items, with distinct keys as in a
  \<open>dict\<close>.
\<close>

datatype json =
    JNull
  | JBool bool
  | JNum int
  | JStr string
  | JArr "json list"
  | JObj "(string \<times> json) list"

definition truthy :: "json \<Rightarrow> bool" where
  \<comment> \<open>\<open>bool(x)\<close>, the test of \<open>if x\<close>, \<open>not x\<close> and \<open>x or y\<close>\<close>
  "truthy j =
     (case j of JNull \<Rightarrow> False | JBool b \<Rightarrow> b | JNum n \<Rightarrow> n \<noteq> 0 | JStr s \<Rightarrow> s \<noteq> []
      | JArr xs \<Rightarrow> xs \<noteq> [] | JObj kvs \<Rightarrow> kvs \<noteq> [])"

definition py_get :: "json \<Rightarrow> string \<Rightarrow> json \<Rightarrow> exn + json" where
  \<comment> \<open>\<open>x.get(k, default)\<close>: only a \<open>dict\<close> has \<open>get\<close>\<close>
  "py_get x k dflt =
     (case x of
        JObj kvs \<Rightarrow> Inr (case map_of kvs k of Some v \<Rightarrow> v | None \<Rightarrow> dflt)
      | _ \<Rightarrow> Inl AttributeError)"

definition py_eq_int :: "json \<Rightarrow> int \<Rightarrow> bool" where
  \<comment> \<open>\<open>x == k\<close> for an integer literal \<open>k\<close>: \<open>True\<close> and \<open>False\<close> compare as 1 and 0\<close>
  "py_eq_int x k =
     (case x of JNum n \<Rightarrow> n = k | JBool b \<Rightarrow> (if b then 1 else 0) = k | _ \<Rightarrow> False)"

definition py_iter :: "json \<Rightarrow> exn + json list" where
  \<comment> \<open>what \<open>for x in v\<close> and \<open>enumerate(v)\<close> run over\<close>
  "py_iter v =
     (case v of
        JArr xs \<Rightarrow> Inr xs
      | JStr s \<Rightarrow> Inr (map (\<lambda>c. JStr [c]) s)
      | JObj kvs \<Rightarrow> Inr (map (\<lambda>kv. JStr (fst kv)) kvs)
      | _ \<Rightarrow> Inl TypeError)"

subsection \<open>Paths\<close>

text \<open>
  A \<open>pathlib.Path\<close> is the list of its segments, and \<open>p / name\<close> appends one segment:
  the source joins a directory with names it takes as single segments (an author folder,
  a sanitised title, a numbered file name, \<open>key.json\<close>).
\<close>

definition path_name :: "path \<Rightarrow> string" where
  \<comment> \<open>\<open>p.name\<close>\<close>
  "path_name p = (if p = [] then [] else last p)"

definition parent :: "path \<Rightarrow> path" where
  \<comment> \<open>\<open>p.parent\<close>\<close>
  "parent p = butlast p"

fun rfind_dot :: "string \<Rightarrow> nat option" where
  \<comment> \<open>\<open>name.rfind('.')\<close>, \<open>None\<close> for -1\<close>
  "rfind_dot [] = None"
| "rfind_dot (c # cs) =
     (case rfind_dot cs of
        Some i \<Rightarrow> Some (Suc i)
      | None \<Rightarrow> if c = CHR ''.'' then Some 0 else None)"

definition suffix :: "path \<Rightarrow> string" where
  \<comment> \<open>\<open>p.suffix\<close>: from the last dot of the name, unless that dot starts or ends the name\<close>
  "suffix p =
     (let name = path_name p
      in case rfind_dot name of
           Some i \<Rightarrow> if 0 < i \<and> i + 1 < length name then drop i name else []
         | None \<Rightarrow> [])"

definition stem :: "path \<Rightarrow> string" where
  \<comment> \<open>\<open>p.stem\<close>\<close>
  "stem p =
     (let name = path_name p
      in case rfind_dot name of
           Some i \<Rightarrow> if 0 < i \<and> i + 1 < length name then take i name else name
         | None \<Rightarrow> name)"

definition with_suffix :: "path \<Rightarrow> string \<Rightarrow> exn + path" where
  \<comment> \<open>\<open>p.with_suffix(s)\<close>\<close>
  "with_suffix p s =
     (let name = path_name p
      in if name = [] then Inl PathValueError
         else Inr (parent p @ [take (length name - length (suffix p)) name @ s]))"

fun path_str :: "path \<Rightarrow> string" where
  \<comment> \<open>\<open>str(p)\<close>: the segments joined by the separator\<close>
  "path_str [] = ''.''"
| "path_str [s] = s"
| "path_str (s # t # ts) = s @ ''/'' @ path_str (t # ts)"

section \<open>Input parsing (downloader.py)\<close>

definition fullmatch_id :: "string \<Rightarrow> bool" where
  \<comment> \<open>\<open>re.fullmatch(r"\d{18,20}", text)\<close>\<close>
  "fullmatch_id s = (list_all is_digit s \<and> 18 \<le> length s \<and> length s \<le> 20)"

fun extract_douyin_code_regex :: "string \<Rightarrow> string option" where
  \<comment> \<open>\<open>re.search(r"v\.douyin\.com/([a-zA-Z0-9]+)", text)\<close>: the leftmost position where
      the literal is followed by at least one alphanumeric character; the group is the
      longest such run.\<close>
  "extract_douyin_code_regex [] = None"
| "extract_douyin_code_regex (c # cs) =
     (let code = takeWhile is_alnum (drop 13 (c # cs))
      in if take 13 (c # cs) = ''v.douyin.com/'' \<and> code \<noteq> [] then Some code
         else extract_douyin_code_regex cs)"

definition get_safe_filename :: "json \<Rightarrow> exn + string" where
  \<comment> \<open>\<open>_get_safe_filename(text)\<close> with its default \<open>max_length = 60\<close>; \<open>re.sub\<close> raises
      \<open>TypeError\<close> on a value that is not a string\<close>
  "get_safe_filename text =
     (if \<not> truthy text then Inr ''Untitled''
      else case text of
             JStr s \<Rightarrow>
               (let t = py_strip
                          (map (\<lambda>c. if c \<in> set [CHR 0x5C, CHR ''/'', CHR ''*'', CHR ''?'',
                                                  CHR '':'', CHR 0x22, CHR ''<'', CHR ''>'',
                                                  CHR ''|'']
                                     then CHR ''_'' else c) s)
                in Inr (take 60 (py_strip_chars ''.'' (py_strip t))))
           | _ \<Rightarrow> Inl TypeError)"

section \<open>Settings, the outside world and the state\<close>

datatype heic_outcome =
    Converted          \<comment> \<open>the JPEG is saved and the original unlinked\<close>
  | DecodeFailed       \<comment> \<open>reading or decoding raised: nothing is written\<close>
  | UnlinkFailed       \<comment> \<open>the JPEG is saved, removing the original raised\<close>

datatype write_outcome =
    Written
  | NotOpened          \<comment> \<open>\<open>mkdir\<close> or \<open>open\<close> raised \<open>OSError\<close>\<close>
  | Broken             \<comment> \<open>\<open>json.dump\<close> raised \<open>OSError\<close> after the file was opened\<close>

text \<open>
  \<open>env\<close> holds the fields of \<open>AppSettings\<close> the modelled code reads, and, as functions,
  the answers of the collaborators the code calls: the media servers, the metadata API,
  the HEIC decoder, the disk, the database and the transcription service.
\<close>

record env =
  json_dir :: path
  video_dir :: path
  image_dir :: path
  id_api_url :: string
  url_api_url :: string
  uid_to_name_map :: "string \<Rightarrow> string option"
  JOB_RETENTION_SECONDS :: int
  file_get :: "json \<Rightarrow> path \<Rightarrow> bool"
    \<comment> \<open>the request for a media URL answers, and its body is written to the path\<close>
  api_get :: "string \<Rightarrow> string \<times> string \<Rightarrow> exn + json"
    \<comment> \<open>the metadata API: URL and the one query parameter\<close>
  heic_decode :: "path \<Rightarrow> heic_outcome"
  json_write :: "path \<Rightarrow> write_outcome"
  db_select_ok :: "string \<Rightarrow> bool"
    \<comment> \<open>the \<open>SELECT\<close> for a key does not raise \<open>SQLAlchemyError\<close>\<close>
  db_upsert_ok :: "string \<Rightarrow> string \<Rightarrow> bool"
  transcribe :: "path \<Rightarrow> exn + string"
  container_str :: "json \<Rightarrow> string"
    \<comment> \<open>\<open>str\<close> of a list or a dict\<close>
  exc_repr :: "exn \<Rightarrow> string"
    \<comment> \<open>\<open>repr\<close> of an exception\<close>

datatype content =
    Json json          \<comment> \<open>a cached metadata document\<close>
  | Media json         \<comment> \<open>the body served for a URL\<close>
  | Jpeg               \<comment> \<open>a converted image\<close>
  | Truncated

datatype event =
    HttpGet json path              \<comment> \<open>a media request of \<open>_download_file\<close>\<close>
  | ApiGet string "string \<times> string"   \<comment> \<open>a metadata request of \<open>_fetch_aweme_data\<close>\<close>
  | TranscribeCall path            \<comment> \<open>a call of \<open>transcriber.transcribe\<close>\<close>
  | LogBatchFailure path exn       \<comment> \<open>the error record of \<open>_batch_download\<close>\<close>
  | LogDownloadException string exn  \<comment> \<open>the error record of \<open>download\<close>\<close>

text \<open>
  The state the code changes: the files on disk, the table \<open>video_index\<close>, and a trace
  of the requests sent and of the two error records named above (other log lines are
  not recorded).
\<close>

record world =
  files :: "path \<Rightarrow> content option"
  video_index :: "string \<Rightarrow> string option"
  trace :: "event list"

definition path_exists :: "world \<Rightarrow> path \<Rightarrow> bool" where
  \<comment> \<open>\<open>p.exists()\<close>\<close>
  "path_exists w p = (files w p \<noteq> None)"

definition emit :: "event \<Rightarrow> world \<Rightarrow> world" where
  "emit ev w = w\<lparr>trace := trace w @ [ev]\<rparr>"

section \<open>Cache index (json\_manager.py)\<close>

definition py_str :: "env \<Rightarrow> json \<Rightarrow> string" where
  \<comment> \<open>\<open>str(x)\<close>\<close>
  "py_str env x =
     (case x of
        JStr s \<Rightarrow> s
      | JNum n \<Rightarrow> (if n < 0 then CHR ''-'' # dec (nat (- n)) else dec (nat n))
      | JBool b \<Rightarrow> (if b then ''True'' else ''False'')
      | JNull \<Rightarrow> ''None''
      | _ \<Rightarrow> container_str env x)"

definition get_data_path :: "env \<Rightarrow> world \<Rightarrow> string \<Rightarrow> path option" where
  \<comment> \<open>\<open>DataManager.get_data_path\<close>; \<open>base_dir\<close> is \<open>settings.json_dir\<close>\<close>
  "get_data_path env w key =
     (if \<not> db_select_ok env key then None
      else case video_index w key of
             None \<Rightarrow> None
           | Some result \<Rightarrow>
               if result \<noteq> [] then
                 (let file_path = json_dir env @ [result, key @ ''.json'']
                  in if path_exists w file_path then Some file_path else None)
               else None)"

definition folder_name_of :: "env \<Rightarrow> json \<Rightarrow> exn + string" where
  \<comment> \<open>step 1 of \<open>save_new_data\<close>: any exception becomes its \<open>ValueError\<close>\<close>
  "folder_name_of env json_data =
     (case ebind (py_get json_data ''data'' (JObj [])) (\<lambda>d.
           ebind (py_get d ''aweme_detail'' (JObj [])) (\<lambda>aweme_detail.
           ebind (py_get aweme_detail ''author'' (JObj [])) (\<lambda>author.
           py_get author ''uid'' (JStr []))))
      of Inl e \<Rightarrow> Inl ExtractIdError
       | Inr uid \<Rightarrow>
           (let author_id = (if \<not> truthy uid then JStr ''unknown_author'' else uid);
                folder_name = py_str env author_id
            in case uid_to_name_map env folder_name of
                 Some name \<Rightarrow> Inr name
               | None \<Rightarrow> Inr folder_name))"

definition save_new_data :: "env \<Rightarrow> world \<Rightarrow> string \<Rightarrow> json \<Rightarrow> (exn + path) \<times> world" where
  \<comment> \<open>\<open>DataManager.save_new_data\<close>: the file is written first and stays when the upsert
      fails\<close>
  "save_new_data env w key json_data =
     (case folder_name_of env json_data of
        Inl e \<Rightarrow> (Inl e, w)
      | Inr folder_name \<Rightarrow>
          (let file_path = json_dir env @ [folder_name, key @ ''.json'']
           in case json_write env file_path of
                NotOpened \<Rightarrow> (Inl OSError, w)
              | Broken \<Rightarrow> (Inl OSError, w\<lparr>files := (files w)(file_path \<mapsto> Truncated)\<rparr>)
              | Written \<Rightarrow>
                  (let w1 = w\<lparr>files := (files w)(file_path \<mapsto> Json json_data)\<rparr>
                   in if db_upsert_ok env key folder_name
                      then (Inr file_path,
                            w1\<lparr>video_index := (video_index w1)(key \<mapsto> folder_name)\<rparr>)
                      else (Inl SQLAlchemyError, w1))))"

section \<open>Retrieval pipeline (downloader.py)\<close>

definition parse_input :: "env \<Rightarrow> string \<Rightarrow> exn + (string \<times> (string \<times> string) \<times> string)" where
  \<comment> \<open>\<open>_parse_input\<close>: the API URL, the query parameter and the cache key\<close>
  "parse_input env text0 =
     (let text = py_strip text0
      in if fullmatch_id text then Inr (id_api_url env, (''aweme_id'', text), text)
         else case extract_douyin_code_regex text of
                Some short_code \<Rightarrow> Inr (url_api_url env, (''share_url'', text), short_code)
              | None \<Rightarrow> Inl (ParseError text))"

definition cache_or_store :: "env \<Rightarrow> world \<Rightarrow> string \<Rightarrow> json \<Rightarrow> (exn + json) \<times> world" where
  \<comment> \<open>the accepted response of \<open>_fetch_aweme_data\<close>: stored when it has \<open>data\<close>\<close>
  "cache_or_store env w cache_key data =
     (case py_get data ''data'' JNull of
        Inl e \<Rightarrow> (Inl e, w)
      | Inr d \<Rightarrow>
          if truthy d then
            (case save_new_data env w cache_key data of
               (Inl e, w1) \<Rightarrow> (Inl e, w1)
             | (Inr p, w1) \<Rightarrow> (Inr data, w1))
          else (Inr data, w))"

definition fetch_aweme_data ::
  "env \<Rightarrow> world \<Rightarrow> string \<Rightarrow> string \<times> string \<Rightarrow> string \<Rightarrow> (exn + json) \<times> world" where
  \<comment> \<open>\<open>_fetch_aweme_data\<close>: the cached document, or the API's answer\<close>
  "fetch_aweme_data env w api_url params cache_key =
     (case get_data_path env w cache_key of
        Some json_path \<Rightarrow>
          (case files w json_path of
             Some (Json doc) \<Rightarrow> (Inr doc, w)
           | _ \<Rightarrow> (Inl JSONDecodeError, w))
      | None \<Rightarrow>
          (let w1 = emit (ApiGet api_url params) w
           in case api_get env api_url params of
                Inl e \<Rightarrow> (Inl e, w1)
              | Inr data \<Rightarrow>
                  (case py_get data ''code'' JNull of
                     Inl e \<Rightarrow> (Inl e, w1)
                   | Inr code \<Rightarrow>
                       if py_eq_int code 200 then cache_or_store env w1 cache_key data
                       else (case py_get data ''status_code'' JNull of
                               Inl e \<Rightarrow> (Inl e, w1)
                             | Inr sc \<Rightarrow>
                                 if py_eq_int sc 0 then cache_or_store env w1 cache_key data
                                 else (Inl ApiError, w1)))))"

definition extract_metadata :: "env \<Rightarrow> json \<Rightarrow> exn + (json \<times> json)" where
  \<comment> \<open>\<open>_extract_metadata\<close>: the author name and the description, as found\<close>
  "extract_metadata env aweme_detail =
     ebind (py_get aweme_detail ''author'' (JObj [])) (\<lambda>author_info.
     ebind (py_get author_info ''uid'' (JStr ''UnknownUserID'')) (\<lambda>uid.
     ebind (py_get author_info ''nickname'' (JStr ''UnknownAuthor'')) (\<lambda>nickname.
     ebind (case uid of
              JStr u \<Rightarrow> Inr (case uid_to_name_map env u of Some n \<Rightarrow> JStr n | None \<Rightarrow> nickname)
            | JArr xs \<Rightarrow> Inl TypeError
            | JObj kvs \<Rightarrow> Inl TypeError
            | _ \<Rightarrow> Inr nickname) (\<lambda>author_name.
     ebind (py_get aweme_detail ''desc'' JNull) (\<lambda>d.
     ebind (if truthy d then Inr d else py_get aweme_detail ''aweme_id'' (JStr ''untitled''))
       (\<lambda>desc. Inr (author_name, desc)))))))"

definition join_dir :: "path \<Rightarrow> json \<Rightarrow> exn + path" where
  \<comment> \<open>\<open>Path(base) / name\<close>: \<open>TypeError\<close> unless the name is a string\<close>
  "join_dir base name = (case name of JStr s \<Rightarrow> Inr (base @ [s]) | _ \<Rightarrow> Inl TypeError)"

definition is_heic :: "path \<Rightarrow> bool" where
  \<comment> \<open>\<open>p.suffix.lower() == ".heic"\<close>\<close>
  "is_heic p = (py_lower (suffix p) = ''.heic'')"

definition jpg_path_of :: "path \<Rightarrow> path" where
  \<comment> \<open>\<open>img_path.parent / f"{img_path.stem}.jpg"\<close>, the \<open>jpg_path\<close> of \<open>heic_to_jpg\<close>\<close>
  "jpg_path_of img_path = parent img_path @ [stem img_path @ ''.jpg'']"

definition heic_to_jpg :: "env \<Rightarrow> world \<Rightarrow> path \<Rightarrow> world" where
  \<comment> \<open>\<open>heic_to_jpg\<close>: it catches and logs every exception of the conversion\<close>
  "heic_to_jpg env w img_path =
     (if \<not> path_exists w img_path \<or> \<not> is_heic img_path then w
      else (let jpg_path = jpg_path_of img_path
            in case heic_decode env img_path of
                 DecodeFailed \<Rightarrow> w
               | UnlinkFailed \<Rightarrow> w\<lparr>files := (files w)(jpg_path \<mapsto> Jpeg)\<rparr>
               | Converted \<Rightarrow>
                   w\<lparr>files := ((files w)(jpg_path \<mapsto> Jpeg))(img_path := None)\<rparr>))"

definition download_file :: "env \<Rightarrow> world \<Rightarrow> json \<Rightarrow> path \<Rightarrow> exn option \<times> world" where
  \<comment> \<open>\<open>_download_file\<close>: \<open>None\<close> when it returns, \<open>Some e\<close> when it raises; on failure the
      destination is removed if it exists\<close>
  "download_file env w url save_path =
     (let w1 = emit (HttpGet url save_path) w
      in if file_get env url save_path then
           (let w2 = w1\<lparr>files := (files w1)(save_path \<mapsto> Media url)\<rparr>
            in (None, if is_heic save_path then heic_to_jpg env w2 save_path else w2))
         else (Some HttpError, w1\<lparr>files := (files w1)(save_path := None)\<rparr>))"

fun try_urls :: "env \<Rightarrow> world \<Rightarrow> json list \<Rightarrow> path \<Rightarrow> bool \<times> world" where
  \<comment> \<open>the loop of \<open>_download_with_retry\<close>: \<open>True\<close> when a URL succeeded\<close>
  "try_urls env w [] save_path = (False, w)"
| "try_urls env w (url # urls) save_path =
     (case download_file env w url save_path of
        (None, w1) \<Rightarrow> (True, w1)
      | (Some e, w1) \<Rightarrow> try_urls env w1 urls save_path)"

definition heic_pending :: "world \<Rightarrow> path \<Rightarrow> exn + bool" where
  \<comment> \<open>\<open>save_path.suffix.lower() == ".heic" and
      not Path(save_path.with_suffix(".jpg")).exists()\<close>\<close>
  "heic_pending w save_path =
     (if is_heic save_path then
        (case with_suffix save_path ''.jpg'' of
           Inl e \<Rightarrow> Inl e
         | Inr jpg \<Rightarrow> Inr (\<not> path_exists w jpg))
      else Inr False)"

definition download_with_retry :: "env \<Rightarrow> world \<Rightarrow> json \<Rightarrow> path \<Rightarrow> exn option \<times> world" where
  \<comment> \<open>\<open>_download_with_retry\<close>\<close>
  "download_with_retry env w url_list save_path =
     (case (if path_exists w save_path then heic_pending w save_path else Inr True) of
        Inl e \<Rightarrow> (Some e, w)
      | Inr False \<Rightarrow> (None, w)
      | Inr True \<Rightarrow>
          if \<not> truthy url_list then (Some (NoUrlGiven save_path), w)
          else (case py_iter url_list of
                  Inl e \<Rightarrow> (Some e, w)
                | Inr urls \<Rightarrow>
                    (case try_urls env w urls save_path of
                       (True, w1) \<Rightarrow> (None, w1)
                     | (False, w1) \<Rightarrow> (Some (AllUrlsFailed save_path), w1))))"

text \<open>
  \<open>asyncio.gather\<close> runs the downloads of a batch concurrently. The model runs them one
  after the other in the order of the list, which is one of the schedules; each writes
  its own destination and the JPEG beside it only.
\<close>

fun gather :: "env \<Rightarrow> world \<Rightarrow> (json \<times> path) list \<Rightarrow> exn option list \<times> world" where
  \<comment> \<open>\<open>asyncio.gather(*tasks, return_exceptions=True)\<close>\<close>
  "gather env w [] = ([], w)"
| "gather env w ((url_list, save_path) # rest) =
     (case download_with_retry env w url_list save_path of
        (r, w1) \<Rightarrow> (case gather env w1 rest of (rs, w2) \<Rightarrow> (r # rs, w2)))"

fun log_failures :: "world \<Rightarrow> (path \<times> exn option) list \<Rightarrow> world" where
  \<comment> \<open>the loop over \<open>zip(downloaded_paths, results)\<close>\<close>
  "log_failures w [] = w"
| "log_failures w ((save_path, None) # rest) = log_failures w rest"
| "log_failures w ((save_path, Some e) # rest) =
     log_failures (emit (LogBatchFailure save_path e) w) rest"

definition batch_download :: "env \<Rightarrow> world \<Rightarrow> (json \<times> path) list \<Rightarrow> path list \<times> world" where
  \<comment> \<open>\<open>_batch_download\<close>\<close>
  "batch_download env w tasks_data =
     (if tasks_data = [] then ([], w)
      else (let downloaded_paths = map snd tasks_data
            in case gather env w tasks_data of
                 (results, w1) \<Rightarrow>
                   (let w2 = log_failures w1 (zip downloaded_paths results)
                    in (filter (path_exists w2) downloaded_paths, w2))))"

definition video_url_list :: "json \<Rightarrow> exn + json" where
  \<comment> \<open>\<open>aweme_detail.get("video", {}).get("play_addr", {}).get("url_list")\<close>\<close>
  "video_url_list aweme_detail =
     ebind (py_get aweme_detail ''video'' (JObj [])) (\<lambda>video.
     ebind (py_get video ''play_addr'' (JObj [])) (\<lambda>play_addr.
       py_get play_addr ''url_list'' JNull))"

definition single_video_task :: "env \<Rightarrow> json \<Rightarrow> exn + (json \<times> path)" where
  \<comment> \<open>\<open>_process_single_video\<close> up to its call of \<open>_batch_download\<close>\<close>
  "single_video_task env aweme_detail =
     ebind (extract_metadata env aweme_detail) (\<lambda>(author_name, desc).
     ebind (video_url_list aweme_detail) (\<lambda>url_list.
       if \<not> truthy url_list then Inl NoPlayAddr
       else
         ebind (get_safe_filename desc) (\<lambda>safe.
         ebind (join_dir (video_dir env) author_name) (\<lambda>dir.
           Inr (url_list, dir @ [safe @ ''.mp4''])))))"

definition process_single_video ::
  "env \<Rightarrow> world \<Rightarrow> json \<Rightarrow> (exn + path list) \<times> world" where
  \<comment> \<open>\<open>_process_single_video\<close>\<close>
  "process_single_video env w aweme_detail =
     (case single_video_task env aweme_detail of
        Inl e \<Rightarrow> (Inl e, w)
      | Inr t \<Rightarrow> (case batch_download env w [t] of (ps, w1) \<Rightarrow> (Inr ps, w1)))"

definition video_urls_of :: "json \<Rightarrow> exn + json" where
  \<comment> \<open>\<open>video_item.get("play_addr_h264", {}).get("url_list") or
      video_item.get("play_addr", {}).get("url_list")\<close>\<close>
  "video_urls_of item =
     ebind (py_get item ''video'' (JObj [])) (\<lambda>video_item.
     ebind (py_get video_item ''play_addr_h264'' (JObj [])) (\<lambda>h264.
     ebind (py_get h264 ''url_list'' JNull) (\<lambda>u.
       if truthy u then Inr u
       else ebind (py_get video_item ''play_addr'' (JObj [])) (\<lambda>pa.
              py_get pa ''url_list'' JNull))))"

fun gallery_loop :: "bool \<Rightarrow> path \<Rightarrow> nat \<Rightarrow> json list \<Rightarrow> exn + (json \<times> path) list" where
  \<comment> \<open>the loop \<open>for i, item in enumerate(media_list)\<close> of \<open>_process_gallery\<close>\<close>
  "gallery_loop is_mixed save_dir i [] = Inr []"
| "gallery_loop is_mixed save_dir i (item # items) =
     ebind (video_urls_of item) (\<lambda>video_urls.
       if is_mixed \<and> truthy video_urls then
         ebind (gallery_loop is_mixed save_dir (i + 1) items) (\<lambda>rest.
           Inr ((video_urls, save_dir @ [''video_'' @ fmt_02d (i + 1) @ ''.mp4'']) # rest))
       else
         ebind (py_get item ''url_list'' JNull) (\<lambda>img_urls.
         ebind (gallery_loop is_mixed save_dir (i + 1) items) (\<lambda>rest.
           if truthy img_urls
           then Inr ((img_urls, save_dir @ [''image_'' @ fmt_02d (i + 1) @ ''.heic'']) # rest)
           else Inr rest)))"

definition gallery_tasks :: "env \<Rightarrow> json \<Rightarrow> bool \<Rightarrow> exn + (json \<times> path) list" where
  \<comment> \<open>\<open>_process_gallery\<close> up to its call of \<open>_batch_download\<close>\<close>
  "gallery_tasks env aweme_detail is_mixed =
     ebind (extract_metadata env aweme_detail) (\<lambda>(author_name, desc).
     ebind (py_get aweme_detail ''images'' JNull) (\<lambda>media_list.
       if \<not> truthy media_list then Inl NoMediaList
       else
         (let base_root = (if is_mixed then video_dir env else image_dir env)
          in ebind (get_safe_filename desc) (\<lambda>folder_name.
             ebind (join_dir base_root author_name) (\<lambda>dir.
             ebind (py_iter media_list) (\<lambda>items.
               gallery_loop is_mixed (dir @ [folder_name]) 0 items))))))"

definition process_gallery ::
  "env \<Rightarrow> world \<Rightarrow> json \<Rightarrow> bool \<Rightarrow> (exn + path list) \<times> world" where
  \<comment> \<open>\<open>_process_gallery\<close>\<close>
  "process_gallery env w aweme_detail is_mixed =
     (case gallery_tasks env aweme_detail is_mixed of
        Inl e \<Rightarrow> (Inl e, w)
      | Inr ts \<Rightarrow> (case batch_download env w ts of (ps, w1) \<Rightarrow> (Inr ps, w1)))"

datatype strategy = ImageGallery | MixedGallery | SingleVideo | Unsupported

definition route :: "json \<Rightarrow> exn + strategy" where
  \<comment> \<open>step 3 of \<open>download\<close>: which \<open>_process_*\<close> method is called\<close>
  "route aweme_detail =
     ebind (py_get aweme_detail ''media_type'' JNull) (\<lambda>media_type.
     ebind (py_get aweme_detail ''images'' JNull) (\<lambda>images.
     ebind (py_get aweme_detail ''video'' JNull) (\<lambda>video.
       (let has_images = truthy images;
            has_video = truthy video;
            is_images = ((py_eq_int media_type 2 \<or> py_eq_int media_type 68)
                         \<or> (has_images \<and> \<not> has_video));
            is_mixed = (py_eq_int media_type 42 \<or> (has_images \<and> has_video));
            is_video = (py_eq_int media_type 4 \<or> (has_video \<and> \<not> has_images))
        in if is_images then Inr ImageGallery
           else if is_mixed then Inr MixedGallery
           else if is_video then Inr SingleVideo
           else Inr Unsupported))))"

definition aweme_detail_of :: "json \<Rightarrow> exn + json" where
  \<comment> \<open>\<open>data.get("data", {}).get("aweme_detail")\<close>\<close>
  "aweme_detail_of data =
     ebind (py_get data ''data'' (JObj [])) (\<lambda>d. py_get d ''aweme_detail'' JNull)"

definition download_try :: "env \<Rightarrow> world \<Rightarrow> string \<Rightarrow> (exn + path list) \<times> world" where
  \<comment> \<open>the \<open>try\<close> block of \<open>download\<close>\<close>
  "download_try env w text =
     (case parse_input env text of
        Inl e \<Rightarrow> (Inl e, w)
      | Inr (api_url, params, cache_key) \<Rightarrow>
          (case fetch_aweme_data env w api_url params cache_key of
             (Inl e, w1) \<Rightarrow> (Inl e, w1)
           | (Inr data, w1) \<Rightarrow>
               (case aweme_detail_of data of
                  Inl e \<Rightarrow> (Inl e, w1)
                | Inr aweme_detail \<Rightarrow>
                    if \<not> truthy aweme_detail then (Inr [], w1)
                    else (case route aweme_detail of
                            Inl e \<Rightarrow> (Inl e, w1)
                          | Inr ImageGallery \<Rightarrow> process_gallery env w1 aweme_detail False
                          | Inr MixedGallery \<Rightarrow> process_gallery env w1 aweme_detail True
                          | Inr SingleVideo \<Rightarrow> process_single_video env w1 aweme_detail
                          | Inr Unsupported \<Rightarrow> (Inr [], w1)))))"

definition download :: "env \<Rightarrow> world \<Rightarrow> string \<Rightarrow> (exn + path list) \<times> world" where
  \<comment> \<open>\<open>DouyinDownloader.download\<close>: its \<open>except Exception\<close> logs and returns \<open>[]\<close>\<close>
  "download env w text =
     (case download_try env w text of
        (Inl e, w1) \<Rightarrow> (Inr [], emit (LogDownloadException text e) w1)
      | (Inr ps, w1) \<Rightarrow> (Inr ps, w1))"

section \<open>Jobs and tasks (models.py, tasks.py)\<close>

datatype MessageCode =
    Msg_DOWNLOAD_PENDING
  | Msg_DOWNLOAD_RUNNING
  | Msg_DOWNLOAD_SUCCESS
  | Msg_DOWNLOAD_FAILED
  | Msg_TRANSCRIBE_PENDING
  | Msg_TRANSCRIBE_RUNNING
  | Msg_TRANSCRIBE_SUCCESS
  | Msg_TRANSCRIBE_EMPTY
  | Msg_TRANSCRIBE_FAILED
  | Msg_INTERNAL_ERROR

fun MESSAGE_TEMPLATES :: "MessageCode \<Rightarrow> string" where
  "MESSAGE_TEMPLATES Msg_DOWNLOAD_PENDING = ''Task created, waiting to download.''"
| "MESSAGE_TEMPLATES Msg_DOWNLOAD_RUNNING = ''Downloading video...''"
| "MESSAGE_TEMPLATES Msg_DOWNLOAD_SUCCESS = ''Download success.''"
| "MESSAGE_TEMPLATES Msg_DOWNLOAD_FAILED = ''Download failed or no video found.''"
| "MESSAGE_TEMPLATES Msg_TRANSCRIBE_PENDING = ''Task created, waiting to transcribe.''"
| "MESSAGE_TEMPLATES Msg_TRANSCRIBE_RUNNING = ''Transcribing (please wait)...''"
| "MESSAGE_TEMPLATES Msg_TRANSCRIBE_SUCCESS = ''Transcription success.''"
| "MESSAGE_TEMPLATES Msg_TRANSCRIBE_EMPTY = ''Transcription returned empty.''"
| "MESSAGE_TEMPLATES Msg_TRANSCRIBE_FAILED = ''Transcription failed.''"
| "MESSAGE_TEMPLATES Msg_INTERNAL_ERROR = ''Internal error occurred.''"

datatype ErrorCode =
    INTERNAL_ERROR
  | DOWNLOAD_FAILED
  | NO_VIDEO_FOUND
  | TRANSCRIBE_FAILED
  | TRANSCRIBE_EMPTY

datatype TaskStatus = PENDING | PROCESSING | COMPLETED | FAILED

record ErrorInfo =
  code :: ErrorCode
  info_message :: string      \<comment> \<open>the field \<open>message\<close> of \<open>ErrorInfo\<close>\<close>
  detail :: "string option"

datatype job_result =
    Files "string list"       \<comment> \<open>the result of a download task\<close>
  | Transcript string         \<comment> \<open>the result of a transcription\<close>

record JobInfo =
  task_id :: string
  status :: TaskStatus
  video_id :: string
  message_code :: "MessageCode option"
  message :: string
  result :: "job_result option"
  created_at :: real
  error :: "ErrorInfo option"

definition set_message :: "MessageCode \<Rightarrow> JobInfo \<Rightarrow> JobInfo" where
  \<comment> \<open>\<open>BaseTask.set_message\<close>: every code has a template, none has a placeholder\<close>
  "set_message c job = job\<lparr>message_code := Some c, message := MESSAGE_TEMPLATES c\<rparr>"

definition fail ::
  "env \<Rightarrow> ErrorCode \<Rightarrow> MessageCode \<Rightarrow> exn option \<Rightarrow> JobInfo \<Rightarrow> JobInfo" where
  \<comment> \<open>\<open>BaseTask.fail\<close>\<close>
  "fail env c msg_code exc job =
     (let job1 = set_message msg_code (job\<lparr>status := FAILED\<rparr>);
          d = (case exc of Some e \<Rightarrow> Some (exc_repr env e) | None \<Rightarrow> None)
      in job1\<lparr>error := Some \<lparr>code = c, info_message = message job1, detail = d\<rparr>\<rparr>)"

text \<open>
  A task holds the downloader it was built with. It is a parameter of \<open>run\<close> here: a
  function from the state and the input to the files or the exception it raises, so
  that \<open>run\<close> is modelled for any collaborator. \<open>run\<close> returns the exception that leaves
  it (\<open>None\<close> when it returns), the job and the state.
\<close>

type_synonym downloader = "world \<Rightarrow> string \<Rightarrow> (exn + path list) \<times> world"

definition DownloadTask_try ::
  "env \<Rightarrow> downloader \<Rightarrow> JobInfo \<Rightarrow> string \<Rightarrow> world \<Rightarrow> exn option \<times> JobInfo \<times> world" where
  \<comment> \<open>the \<open>try\<close> block of \<open>DownloadTask.run\<close>\<close>
  "DownloadTask_try env dl job vid w =
     (let job1 = set_message Msg_DOWNLOAD_RUNNING (job\<lparr>status := PROCESSING\<rparr>)
      in case dl w vid of
           (Inl e, w1) \<Rightarrow> (Some e, job1, w1)
         | (Inr fs, w1) \<Rightarrow>
             if fs \<noteq> [] then
               (None,
                set_message Msg_DOWNLOAD_SUCCESS
                  (job1\<lparr>status := COMPLETED, result := Some (Files (map path_str fs))\<rparr>),
                w1)
             else (None, fail env DOWNLOAD_FAILED Msg_DOWNLOAD_FAILED None job1, w1))"

definition DownloadTask_run ::
  "env \<Rightarrow> downloader \<Rightarrow> JobInfo \<Rightarrow> string \<Rightarrow> world \<Rightarrow> exn option \<times> JobInfo \<times> world" where
  \<comment> \<open>\<open>DownloadTask.run\<close>\<close>
  "DownloadTask_run env dl job vid w =
     (case DownloadTask_try env dl job vid w of
        (Some e, job1, w1) \<Rightarrow> (None, fail env INTERNAL_ERROR Msg_INTERNAL_ERROR (Some e) job1, w1)
      | (None, job1, w1) \<Rightarrow> (None, job1, w1))"

definition is_video_file :: "path \<Rightarrow> bool" where
  \<comment> \<open>\<open>file_path.suffix.lower() in [".mp4", ".mov", ".mkv"]\<close>\<close>
  "is_video_file p = (py_lower (suffix p) \<in> set [''.mp4'', ''.mov'', ''.mkv''])"

fun transcribe_first ::
  "env \<Rightarrow> JobInfo \<Rightarrow> world \<Rightarrow> path list \<Rightarrow> bool \<times> string \<times> JobInfo \<times> world" where
  \<comment> \<open>the loop \<open>for file_path in files\<close>; the flag says that the loop left \<open>run\<close> by its
      \<open>return\<close>, the string is \<open>transcript_result\<close>\<close>
  "transcribe_first env job w [] = (False, [], job, w)"
| "transcribe_first env job w (file_path # rest) =
     (if is_video_file file_path then
        (let w1 = emit (TranscribeCall file_path) w
         in case transcribe env file_path of
              Inl e \<Rightarrow> (True, [], fail env TRANSCRIBE_FAILED Msg_TRANSCRIBE_FAILED (Some e) job, w1)
            | Inr t \<Rightarrow> (False, t, job, w1))
      else transcribe_first env job w rest)"

definition DownloadAndTranscribeTask_try ::
  "env \<Rightarrow> downloader \<Rightarrow> JobInfo \<Rightarrow> string \<Rightarrow> world \<Rightarrow> exn option \<times> JobInfo \<times> world" where
  \<comment> \<open>the \<open>try\<close> block of \<open>DownloadAndTranscribeTask.run\<close>\<close>
  "DownloadAndTranscribeTask_try env dl job vid w =
     (let job1 = set_message Msg_DOWNLOAD_RUNNING (job\<lparr>status := PROCESSING\<rparr>)
      in case dl w vid of
           (Inl e, w1) \<Rightarrow> (Some e, job1, w1)
         | (Inr fs, w1) \<Rightarrow>
             if fs = [] then (None, fail env NO_VIDEO_FOUND Msg_DOWNLOAD_FAILED None job1, w1)
             else
               (let job2 = set_message Msg_TRANSCRIBE_RUNNING job1
                in case transcribe_first env job2 w1 fs of
                     (True, t, job3, w2) \<Rightarrow> (None, job3, w2)
                   | (False, transcript_result, job3, w2) \<Rightarrow>
                       if transcript_result \<noteq> [] then
                         (None,
                          set_message Msg_TRANSCRIBE_SUCCESS
                            (job3\<lparr>status := COMPLETED,
                                  result := Some (Transcript transcript_result)\<rparr>),
                          w2)
                       else (None, fail env TRANSCRIBE_EMPTY Msg_TRANSCRIBE_EMPTY None job3, w2)))"

definition DownloadAndTranscribeTask_run ::
  "env \<Rightarrow> downloader \<Rightarrow> JobInfo \<Rightarrow> string \<Rightarrow> world \<Rightarrow> exn option \<times> JobInfo \<times> world" where
  \<comment> \<open>\<open>DownloadAndTranscribeTask.run\<close>\<close>
  "DownloadAndTranscribeTask_run env dl job vid w =
     (case DownloadAndTranscribeTask_try env dl job vid w of
        (Some e, job1, w1) \<Rightarrow> (None, fail env INTERNAL_ERROR Msg_INTERNAL_ERROR (Some e) job1, w1)
      | (None, job1, w1) \<Rightarrow> (None, job1, w1))"

section \<open>Task manager (task\_manager.py)\<close>

text \<open>
  The registry \<open>_tasks\<close> is a \<open>dict\<close> from task id to task: a list of items with distinct
  keys, in insertion order. Of a task, the registry's operations read the job only.
\<close>

datatype task =
    DownloadTask JobInfo string
  | DownloadAndTranscribeTask JobInfo string

fun job :: "task \<Rightarrow> JobInfo" where
  "job (DownloadTask j v) = j"
| "job (DownloadAndTranscribeTask j v) = j"

type_synonym registry = "(string \<times> task) list"

definition register :: "task \<Rightarrow> registry \<Rightarrow> registry" where
  \<comment> \<open>\<open>self._tasks[task.id] = task\<close>\<close>
  "register t reg = AList.update (task_id (job t)) t reg"

definition get_job :: "registry \<Rightarrow> string \<Rightarrow> JobInfo option" where
  \<comment> \<open>\<open>TaskManager.get_job\<close>\<close>
  "get_job reg tid = (case map_of reg tid of Some t \<Rightarrow> Some (job t) | None \<Rightarrow> None)"

definition expired_ids :: "env \<Rightarrow> real \<Rightarrow> registry \<Rightarrow> string list" where
  \<comment> \<open>the first loop of \<open>cleanup_old_jobs\<close>\<close>
  "expired_ids env now reg =
     map fst (filter (\<lambda>(tid, t). now - created_at (job t) > real_of_int (JOB_RETENTION_SECONDS env))
                reg)"

definition cleanup_old_jobs :: "env \<Rightarrow> real \<Rightarrow> registry \<Rightarrow> registry" where
  \<comment> \<open>\<open>TaskManager.cleanup_old_jobs\<close>, with \<open>time.time()\<close> as \<open>now\<close>: each expired id is
      popped\<close>
  "cleanup_old_jobs env now reg = fold AList.delete (expired_ids env now reg) reg"

section \<open>Notions used to state the properties\<close>

definition some_url_answers :: "env \<Rightarrow> json \<Rightarrow> path \<Rightarrow> bool" where
  \<comment> \<open>a mirror list is not exhausted: one of its URLs answers for the destination\<close>
  "some_url_answers env url_list save_path =
     (case py_iter url_list of
        Inr urls \<Rightarrow> list_ex (\<lambda>url. file_get env url save_path) urls
      | Inl e \<Rightarrow> False)"

definition is_log :: "event \<Rightarrow> bool" where
  \<comment> \<open>the error records among the events of the trace\<close>
  "is_log ev =
     (case ev of LogBatchFailure p e \<Rightarrow> True | LogDownloadException t e \<Rightarrow> True | _ \<Rightarrow> False)"



definition resolves :: "env \<Rightarrow> world \<Rightarrow> string \<Rightarrow> world \<Rightarrow> json \<Rightarrow> bool" where
  \<comment> \<open>steps 1 and 2 of \<open>download\<close> succeed on the input: it parses, and the cache or the
      API yields a document whose \<open>aweme_detail\<close> is the given, non-empty one; the second
      state is the one after the fetch\<close>
  "resolves env w text w1 aweme_detail =
     (case parse_input env text of
        Inl e \<Rightarrow> False
      | Inr (api_url, params, cache_key) \<Rightarrow>
          (case fetch_aweme_data env w api_url params cache_key of
             (Inl e, w') \<Rightarrow> False
           | (Inr data, w') \<Rightarrow>
               w' = w1 \<and> aweme_detail_of data = Inr aweme_detail \<and> truthy aweme_detail))"

section \<open>Sample values\<close>

definition default_env :: env where
  \<comment> \<open>the defaults of \<open>AppSettings\<close>, with collaborators that always answer\<close>
  "default_env =
     \<lparr>json_dir = [''data'', ''json''],
      video_dir = [''data'', ''videos''],
      image_dir = [''data'', ''images''],
      id_api_url = ''https://api.tikhub.io/api/v1/douyin/app/v3/fetch_one_video'',
      url_api_url =
        ''https://api.tikhub.io/api/v1/douyin/app/v3/fetch_one_video_by_share_url'',
      uid_to_name_map = Map.empty,
      JOB_RETENTION_SECONDS = 86400,
      file_get = (\<lambda>url p. True),
      api_get = (\<lambda>url param. Inl HttpError),
      heic_decode = (\<lambda>p. Converted),
      json_write = (\<lambda>p. Written),
      db_select_ok = (\<lambda>key. True),
      db_upsert_ok = (\<lambda>key folder. True),
      transcribe = (\<lambda>p. Inr ''text''),
      container_str = (\<lambda>x. ''[]''),
      exc_repr = (\<lambda>e. ''Exception()'')\<rparr>"

definition empty_world :: world where
  "empty_world = \<lparr>files = Map.empty, video_index = Map.empty, trace = []\<rparr>"

definition new_job :: "string \<Rightarrow> string \<Rightarrow> real \<Rightarrow> JobInfo" where
  \<comment> \<open>\<open>JobInfo(task_id=..., status=TaskStatus.PENDING, video_id=...)\<close> created at a given
      time, as main.py builds it\<close>
  "new_job tid vid t =
     \<lparr>task_id = tid, status = PENDING, video_id = vid, message_code = None, message = [],
      result = None, created_at = t, error = None\<rparr>"

definition two_jobs :: registry where
  "two_jobs =
     register (DownloadTask (new_job ''b'' ''v'' 90000) ''v'')
       (register (DownloadTask (new_job ''a'' ''v'' 0) ''v'') [])"


definition notes_downloader :: downloader where
  \<comment> \<open>a collaborator that returns one file that is not a video\<close>
  "notes_downloader = (\<lambda>w text. (Inr [[''data'', ''notes.txt'']], w))"

definition video_tagged_with_images :: json where
  \<comment> \<open>an \<open>aweme_detail\<close> tagged as a single video (\<open>media_type\<close> 4) that also has images\<close>
  "video_tagged_with_images =
     JObj [(''aweme_id'', JStr ''7310567891234567890''),
           (''media_type'', JNum 4),
           (''desc'', JStr ''clip''),
           (''author'', JObj [(''uid'', JStr ''10086''), (''nickname'', JStr ''Alice'')]),
           (''images'', JArr [JObj [(''url_list'', JArr [JStr ''http://img/1''])]]),
           (''video'',
              JObj [(''play_addr'', JObj [(''url_list'', JArr [JStr ''http://cdn/v''])])])]"

definition spec_doc :: json where
  \<comment> \<open>the document of the spec's end-to-end scenario\<close>
  "spec_doc =
     JObj [(''data'',
       JObj [(''aweme_detail'',
         JObj [(''aweme_id'', JStr ''73105678912345''),
               (''desc'', JStr ''test''),
               (''author'', JObj [(''uid'', JStr ''10086'')])])])]"

definition no_url_video :: json where
  \<comment> \<open>an \<open>aweme_detail\<close> of a single video whose URL list is empty\<close>
  "no_url_video =
     JObj [(''aweme_id'', JStr ''7310567891234567890''),
           (''media_type'', JNum 4),
           (''desc'', JStr ''clip''),
           (''author'', JObj [(''uid'', JStr ''10086''), (''nickname'', JStr ''Alice'')]),
           (''video'', JObj [(''play_addr'', JObj [(''url_list'', JArr [])])])]"

definition cached :: "json \<Rightarrow> world" where
  \<comment> \<open>a disk and an index that hold one cached document, for the id 7310567891234567890
      of the author 10086, around the given \<open>aweme_detail\<close>\<close>
  "cached d =
     \<lparr>files = [[''data'', ''json'', ''10086'', ''7310567891234567890.json'']
                 \<mapsto> Json (JObj [(''data'', JObj [(''aweme_detail'', d)])])],
      video_index = [''7310567891234567890'' \<mapsto> ''10086''],
      trace = []\<rparr>"


definition put_file :: "path \<Rightarrow> content \<Rightarrow> world \<Rightarrow> world" where
  \<comment> \<open>the state with one more file on disk\<close>
  "put_file p c w = w\<lparr>files := (files w)(p \<mapsto> c)\<rparr>"



definition dead_mirror :: env where
  \<comment> \<open>the default settings, with one media URL that never answers\<close>
  "dead_mirror = default_env\<lparr>file_get := (\<lambda>url p. url \<noteq> JStr ''http://dead/1'')\<rparr>"

section \<open>Task manager: retention\<close>

lemma map_of_fold_delete:
  "map_of (fold AList.delete ks al) k = (if k \<in> set ks then None else map_of al k)"
  by (induction ks arbitrary: al) (auto simp: AList.delete_conv')

lemma mem_expired_ids:
  "distinct (map fst reg) \<Longrightarrow> map_of reg tid = Some t \<Longrightarrow>
   tid \<in> set (expired_ids env now reg)
     \<longleftrightarrow> now - created_at (job t) > real_of_int (JOB_RETENTION_SECONDS env)"
  by (auto simp: expired_ids_def image_iff dest: map_of_SomeD)
     (metis map_of_is_SomeI option.inject)+

lemma distinct_register:
  "distinct (map fst reg) \<Longrightarrow> distinct (map fst (register t reg))"
  by (simp add: register_def AList.distinct_update)

text \<open>
  C8. After a cleanup sweep at time \<open>now\<close>, a registered job whose age
  \<open>now - created_at\<close> exceeds \<open>JOB_RETENTION_SECONDS\<close> is absent from \<open>get_job\<close>, and a
  registered job whose age is within the window is still returned by \<open>get_job\<close>,
  unchanged (the registry entry is the same task). The registry is a \<open>dict\<close>: its keys
  are distinct.
\<close>

theorem cleanup_retention:
  assumes "distinct (map fst reg)" and "map_of reg tid = Some t"
  shows "(now - created_at (job t) > real_of_int (JOB_RETENTION_SECONDS env)
            \<longrightarrow> get_job (cleanup_old_jobs env now reg) tid = None)
       \<and> (now - created_at (job t) \<le> real_of_int (JOB_RETENTION_SECONDS env)
            \<longrightarrow> get_job (cleanup_old_jobs env now reg) tid = Some (job t)
              \<and> map_of (cleanup_old_jobs env now reg) tid = Some t)"
  using assms mem_expired_ids [OF assms, of env now]
  by (auto simp: get_job_def cleanup_old_jobs_def map_of_fold_delete)

theorem cleanup_retention_witness:
  "distinct (map fst two_jobs)
   \<and> map_of two_jobs ''a'' = Some (DownloadTask (new_job ''a'' ''v'' 0) ''v'')
   \<and> map_of two_jobs ''b'' = Some (DownloadTask (new_job ''b'' ''v'' 90000) ''v'')
   \<and> get_job (cleanup_old_jobs default_env 100000 two_jobs) ''a'' = None
   \<and> get_job (cleanup_old_jobs default_env 100000 two_jobs) ''b''
       = Some (new_job ''b'' ''v'' 90000)"
proof -
  have d: "distinct (map fst two_jobs)"
    by (simp add: two_jobs_def register_def new_job_def)
  have a: "map_of two_jobs ''a'' = Some (DownloadTask (new_job ''a'' ''v'' 0) ''v'')"
    by (simp add: two_jobs_def register_def new_job_def)
  have b: "map_of two_jobs ''b'' = Some (DownloadTask (new_job ''b'' ''v'' 90000) ''v'')"
    by (simp add: two_jobs_def register_def new_job_def)
  have "get_job (cleanup_old_jobs default_env 100000 two_jobs) ''a'' = None"
    using cleanup_retention [OF d a, where now = 100000 and env = default_env]
    by (simp add: new_job_def default_env_def)
  moreover have "get_job (cleanup_old_jobs default_env 100000 two_jobs) ''b''
                   = Some (new_job ''b'' ''v'' 90000)"
    using cleanup_retention [OF d b, where now = 100000 and env = default_env]
    by (simp add: new_job_def default_env_def)
  ultimately show ?thesis using d a b by simp
qed

section \<open>Tasks: the boundary of \<open>run\<close>\<close>

lemma fail_fields:
  "status (fail env c m exc j) = FAILED"
  "error (fail env c m exc j)
     = Some \<lparr>code = c, info_message = MESSAGE_TEMPLATES m,
             detail = (case exc of Some e \<Rightarrow> Some (exc_repr env e) | None \<Rightarrow> None)\<rparr>"
  "message (fail env c m exc j) = MESSAGE_TEMPLATES m"
  "message_code (fail env c m exc j) = Some m"
  by (simp_all add: fail_def set_message_def Let_def)



lemma transcribe_first_trace:
  "transcribe_first env j w fs = (b, t, j', w') \<Longrightarrow>
     w' = (case find is_video_file fs of Some f \<Rightarrow> emit (TranscribeCall f) w | None \<Rightarrow> w)
   \<and> (find is_video_file fs = None \<longrightarrow> \<not> b \<and> t = [] \<and> j' = j)"
  by (induction fs) (auto split: if_splits sum.splits simp: Let_def)



section \<open>Tasks: transcription\<close>

text \<open>
  C10, as amended. When the downloader returns the files \<open>fs\<close>, the composite task calls
  the transcriber at most once: on the first file of \<open>fs\<close> whose lower-cased suffix is
  \<open>.mp4\<close>, \<open>.mov\<close> or \<open>.mkv\<close>, and not at all when there is none (the state after the run
  is the state after the download plus that one call). If \<open>fs\<close> is not empty and no file
  has such a suffix, the job is \<open>FAILED\<close> with code \<open>TRANSCRIBE_EMPTY\<close>; if \<open>fs\<close> is empty,
  the job is \<open>FAILED\<close> with code \<open>NO_VIDEO_FOUND\<close>.
\<close>

theorem transcribe_at_most_once:
  assumes "dl w vid = (Inr fs, w1)"
      and "out = DownloadAndTranscribeTask_run env dl j vid w"
  shows "snd (snd out)
           = (case find is_video_file fs of
                Some f \<Rightarrow> emit (TranscribeCall f) w1
              | None \<Rightarrow> w1)
       \<and> (fs \<noteq> [] \<and> (\<forall>f \<in> set fs. \<not> is_video_file f) \<longrightarrow>
            status (fst (snd out)) = FAILED
          \<and> error (fst (snd out))
              = Some \<lparr>code = TRANSCRIBE_EMPTY, info_message = ''Transcription returned empty.'',
                      detail = None\<rparr>)
       \<and> (fs = [] \<longrightarrow>
            status (fst (snd out)) = FAILED
          \<and> error (fst (snd out))
              = Some \<lparr>code = NO_VIDEO_FOUND,
                      info_message = ''Download failed or no video found.'',
                      detail = None\<rparr>)"
proof -
  obtain b t j' w' where tf:
    "transcribe_first env (set_message Msg_TRANSCRIBE_RUNNING
        (set_message Msg_DOWNLOAD_RUNNING (j\<lparr>status := PROCESSING\<rparr>))) w1 fs = (b, t, j', w')"
    by (metis prod_cases4)
  have none: "(\<forall>f \<in> set fs. \<not> is_video_file f) \<Longrightarrow> find is_video_file fs = None"
    by (simp add: find_None_iff)
  from transcribe_first_trace [OF tf] assms tf none show ?thesis
    by (auto simp: DownloadAndTranscribeTask_run_def DownloadAndTranscribeTask_try_def
          Let_def fail_fields split: if_splits bool.splits option.splits)
qed

lemma is_video_file_notes: "\<not> is_video_file [''data'', ''notes.txt'']"
  by (simp add: is_video_file_def suffix_def path_name_def py_lower_def py_lower_char_def)

theorem transcribe_at_most_once_witness:
  "notes_downloader empty_world ''x'' = (Inr [[''data'', ''notes.txt'']], empty_world)
   \<and> [[''data'', ''notes.txt'']] \<noteq> []
   \<and> \<not> is_video_file [''data'', ''notes.txt'']
   \<and> snd (snd (DownloadAndTranscribeTask_run default_env notes_downloader
                  (new_job ''t'' ''x'' 0) ''x'' empty_world)) = empty_world
   \<and> error (fst (snd (DownloadAndTranscribeTask_run default_env notes_downloader
                         (new_job ''t'' ''x'' 0) ''x'' empty_world)))
       = Some \<lparr>code = TRANSCRIBE_EMPTY, info_message = ''Transcription returned empty.'',
               detail = None\<rparr>"
proof -
  have d: "notes_downloader empty_world ''x'' = (Inr [[''data'', ''notes.txt'']], empty_world)"
    by (simp add: notes_downloader_def)
  have n: "\<forall>f \<in> set [[''data'', ''notes.txt'']]. \<not> is_video_file f"
    using is_video_file_notes by simp
  from transcribe_at_most_once
         [where dl = notes_downloader and w = empty_world and vid = "''x''"
            and env = default_env and j = "new_job ''t'' ''x'' 0", OF d refl]
    d n is_video_file_notes
  show ?thesis by simp
qed

section \<open>Retrieval pipeline: input that does not parse\<close>

lemma extract_code_intro:
  "is_alnum c \<Longrightarrow> extract_douyin_code_regex (pre @ ''v.douyin.com/'' @ c # post) \<noteq> None"
  by (induction pre) (auto simp: Let_def)

lemma extract_code_elim:
  "extract_douyin_code_regex s = Some sc \<Longrightarrow>
   \<exists>pre post. s = pre @ ''v.douyin.com/'' @ sc @ post \<and> sc \<noteq> [] \<and> list_all is_alnum sc
      \<and> (post = [] \<or> \<not> is_alnum (hd post))"
proof (induction s)
  case Nil
  then show ?case by simp
next
  case (Cons c cs)
  show ?case
  proof (cases "take 13 (c # cs) = ''v.douyin.com/''
                \<and> takeWhile is_alnum (drop 13 (c # cs)) \<noteq> []")
    case True
    with Cons.prems have sc: "sc = takeWhile is_alnum (drop 13 (c # cs))"
      by (simp add: Let_def)
    have "c # cs = take 13 (c # cs) @ takeWhile is_alnum (drop 13 (c # cs))
                     @ dropWhile is_alnum (drop 13 (c # cs))"
      by (metis append_take_drop_id takeWhile_dropWhile_id)
    with True sc have
      "c # cs = [] @ ''v.douyin.com/'' @ sc @ dropWhile is_alnum (drop 13 (c # cs))"
      by simp
    moreover have "list_all is_alnum sc"
      using sc by (simp add: list_all_iff) (meson set_takeWhileD)
    moreover have "dropWhile is_alnum (drop 13 (c # cs)) = []
                 \<or> \<not> is_alnum (hd (dropWhile is_alnum (drop 13 (c # cs))))"
      by (metis hd_dropWhile)
    ultimately show ?thesis using True sc by blast
  next
    case False
    with Cons.prems have "extract_douyin_code_regex cs = Some sc"
      by (auto simp: Let_def split: if_splits)
    from Cons.IH [OF this] obtain pre post where
      "cs = pre @ ''v.douyin.com/'' @ sc @ post" "sc \<noteq> []" "list_all is_alnum sc"
      "post = [] \<or> \<not> is_alnum (hd post)" by blast
    then have "c # cs = (c # pre) @ ''v.douyin.com/'' @ sc @ post" by simp
    with \<open>sc \<noteq> []\<close> \<open>list_all is_alnum sc\<close> \<open>post = [] \<or> \<not> is_alnum (hd post)\<close>
    show ?thesis by blast
  qed
qed

text \<open>
  The search finds nothing exactly when the text holds no occurrence of
  \<open>v.douyin.com/\<close> followed by an alphanumeric character.
\<close>

lemma extract_None_iff:
  "extract_douyin_code_regex s = None
     \<longleftrightarrow> \<not> (\<exists>pre c post. s = pre @ ''v.douyin.com/'' @ c # post \<and> is_alnum c)"
proof
  assume "extract_douyin_code_regex s = None"
  then show "\<not> (\<exists>pre c post. s = pre @ ''v.douyin.com/'' @ c # post \<and> is_alnum c)"
    using extract_code_intro by blast
next
  assume n: "\<not> (\<exists>pre c post. s = pre @ ''v.douyin.com/'' @ c # post \<and> is_alnum c)"
  show "extract_douyin_code_regex s = None"
  proof (rule ccontr)
    assume "extract_douyin_code_regex s \<noteq> None"
    then obtain sc where "extract_douyin_code_regex s = Some sc" by blast
    from extract_code_elim [OF this] obtain pre post where
      s: "s = pre @ ''v.douyin.com/'' @ sc @ post" and "sc \<noteq> []" "list_all is_alnum sc"
      by blast
    then obtain c cs where "sc = c # cs" "is_alnum c" by (cases sc) auto
    with s have "s = pre @ ''v.douyin.com/'' @ c # (cs @ post) \<and> is_alnum c" by simp
    with n show False by blast
  qed
qed

lemma hello_does_not_parse:
  "\<not> fullmatch_id (py_strip ''hello'')
   \<and> extract_douyin_code_regex (py_strip ''hello'') = None"
  by (simp add: py_strip_def py_isspace_def fullmatch_id_def Let_def)

text \<open>
  C1, as stated, fails: on the input \<open>hello\<close>, which is neither an 18 to 20 digit
  identifier nor text with a short code, \<open>download\<close> returns the empty list; no
  exception reaches its caller.
\<close>

theorem download_parse_error_counterexample:
  "\<not> fullmatch_id (py_strip ''hello'')
   \<and> extract_douyin_code_regex (py_strip ''hello'') = None
   \<and> fst (download default_env empty_world ''hello'') = Inr []"
  using hello_does_not_parse
  by (simp add: download_def download_try_def parse_input_def Let_def)

text \<open>
  C1, as amended. For every input that, stripped, is neither an 18 to 20 digit
  identifier nor text holding a \<open>v.douyin.com\<close> short code, \<open>_parse_input\<close> raises its
  parse error; \<open>download\<close> catches it, records it in the log and returns the empty list,
  with no request sent and nothing written; a \<open>DownloadTask\<close> on that input returns and
  leaves the job \<open>FAILED\<close> with the fixed code \<open>DOWNLOAD_FAILED\<close>.
\<close>

theorem parse_failure_is_swallowed:
  assumes "\<not> fullmatch_id (py_strip text)"
      and "extract_douyin_code_regex (py_strip text) = None"
  shows "parse_input env text = Inl (ParseError (py_strip text))
       \<and> download env w text
           = (Inr [], emit (LogDownloadException text (ParseError (py_strip text))) w)
       \<and> fst (DownloadTask_run env (download env) j text w) = None
       \<and> status (fst (snd (DownloadTask_run env (download env) j text w))) = FAILED
       \<and> error (fst (snd (DownloadTask_run env (download env) j text w)))
           = Some \<lparr>code = DOWNLOAD_FAILED,
                   info_message = ''Download failed or no video found.'', detail = None\<rparr>"
proof -
  have p: "parse_input env text = Inl (ParseError (py_strip text))"
    using assms by (simp add: parse_input_def Let_def)
  then have d: "download env w text
           = (Inr [], emit (LogDownloadException text (ParseError (py_strip text))) w)"
    by (simp add: download_def download_try_def)
  from p d show ?thesis
    by (simp add: DownloadTask_run_def DownloadTask_try_def Let_def fail_fields)
qed

theorem parse_failure_is_swallowed_witness:
  "\<not> fullmatch_id (py_strip ''hello'')
   \<and> extract_douyin_code_regex (py_strip ''hello'') = None
   \<and> parse_input default_env ''hello'' = Inl (ParseError ''hello'')
   \<and> status (fst (snd (DownloadTask_run default_env (download default_env)
                          (new_job ''t'' ''hello'' 0) ''hello'' empty_world))) = FAILED"
proof -
  have a: "\<not> fullmatch_id (py_strip ''hello'')"
    and b: "extract_douyin_code_regex (py_strip ''hello'') = None"
    using hello_does_not_parse by simp_all
  have s: "py_strip ''hello'' = ''hello''"
    by (simp add: py_strip_def py_isspace_def)
  from parse_failure_is_swallowed [OF a b, where env = default_env and w = empty_world
      and j = "new_job ''t'' ''hello'' 0"] a b s
  show ?thesis by simp
qed

text \<open>
  C10, as stated, fails: the downloader returns no file on the input \<open>hello\<close>, so no
  returned file has a video suffix, and the job fails with \<open>NO_VIDEO_FOUND\<close>, not with
  \<open>TRANSCRIBE_EMPTY\<close>.
\<close>

theorem transcribe_empty_counterexample:
  "fst (download default_env empty_world ''hello'') = Inr []
   \<and> map_option code
       (error (fst (snd (DownloadAndTranscribeTask_run default_env (download default_env)
                           (new_job ''t'' ''hello'' 0) ''hello'' empty_world))))
       = Some NO_VIDEO_FOUND
   \<and> NO_VIDEO_FOUND \<noteq> TRANSCRIBE_EMPTY"
proof -
  have d: "download default_env empty_world ''hello''
             = (Inr [], emit (LogDownloadException ''hello'' (ParseError ''hello'')) empty_world)"
    using hello_does_not_parse
    by (simp add: download_def download_try_def parse_input_def Let_def py_strip_def
          py_isspace_def)
  then show ?thesis
    by (simp add: DownloadAndTranscribeTask_run_def DownloadAndTranscribeTask_try_def
          Let_def fail_fields)
qed

section \<open>Retrieval pipeline: routing\<close>

text \<open>
  C4. The claim, that a document whose tag denotes a single video is handled by the
  single-video strategy whatever structural fields it has, does not hold of the code:
  the document below has \<open>media_type\<close> 4, images and a video, and is routed to the mixed
  gallery, because the structural test of an earlier branch is tried before the tag of
  a later one.
\<close>

theorem route_video_tag_overridden:
  "py_get video_tagged_with_images ''media_type'' JNull = Inr (JNum 4)
   \<and> route video_tagged_with_images = Inr MixedGallery"
  by (simp add: video_tagged_with_images_def route_def py_get_def ebind_def truthy_def
        py_eq_int_def Let_def)

section \<open>Cache index: save, then look up\<close>

lemma save_spec_doc:
  "save_new_data default_env empty_world ''73105678912345'' spec_doc
     = (Inr [''data'', ''json'', ''10086'', ''73105678912345.json''],
        \<lparr>files = [[''data'', ''json'', ''10086'', ''73105678912345.json''] \<mapsto> Json spec_doc],
         video_index = [''73105678912345'' \<mapsto> ''10086''], trace = []\<rparr>)"
  by (simp add: save_new_data_def folder_name_of_def py_get_def ebind_def truthy_def
        py_str_def default_env_def empty_world_def spec_doc_def Let_def)

text \<open>
  C2, as stated, fails: the save of the spec's document succeeds, and a lookup during
  which the \<open>SELECT\<close> raises returns no path (\<open>get_data_path\<close> turns the database error
  into a miss).
\<close>

theorem lookup_after_save_counterexample:
  "fst (save_new_data default_env empty_world ''73105678912345'' spec_doc)
     = Inr [''data'', ''json'', ''10086'', ''73105678912345.json'']
   \<and> get_data_path (default_env\<lparr>db_select_ok := (\<lambda>key. False)\<rparr>)
         (snd (save_new_data default_env empty_world ''73105678912345'' spec_doc))
         ''73105678912345'' = None"
  by (simp add: save_spec_doc get_data_path_def)

text \<open>
  C2, as amended. After \<open>save_new_data\<close> succeeds with path \<open>p\<close>, a lookup whose \<open>SELECT\<close>
  does not raise returns \<open>p\<close>, and the file at \<open>p\<close> holds the saved document. The lookup
  may run under any other settings \<open>env'\<close> with the same \<open>json_dir\<close>, in particular with
  another \<open>uid_to_name_map\<close>: the folder of \<open>p\<close> is the one computed at save time and
  recorded in the index. The recorded folder name is taken to be non-empty.
\<close>

theorem save_then_lookup:
  assumes "save_new_data env w key doc = (Inr p, w')"
      and "json_dir env' = json_dir env"
      and "db_select_ok env' key"
      and "video_index w' key \<noteq> Some []"
  shows "get_data_path env' w' key = Some p
       \<and> files w' p = Some (Json doc)
       \<and> (\<exists>folder. folder_name_of env doc = Inr folder
                  \<and> video_index w' key = Some folder
                  \<and> p = json_dir env @ [folder, key @ ''.json''])"
  using assms
  by (auto simp: save_new_data_def get_data_path_def path_exists_def Let_def
        split: sum.splits write_outcome.splits if_splits)

theorem save_then_lookup_witness:
  "save_new_data default_env empty_world ''73105678912345'' spec_doc
     = (Inr [''data'', ''json'', ''10086'', ''73105678912345.json''],
        \<lparr>files = [[''data'', ''json'', ''10086'', ''73105678912345.json''] \<mapsto> Json spec_doc],
         video_index = [''73105678912345'' \<mapsto> ''10086''], trace = []\<rparr>)
   \<and> get_data_path (default_env\<lparr>uid_to_name_map := [''10086'' \<mapsto> ''Alice'']\<rparr>)
         \<lparr>files = [[''data'', ''json'', ''10086'', ''73105678912345.json''] \<mapsto> Json spec_doc],
          video_index = [''73105678912345'' \<mapsto> ''10086''], trace = []\<rparr>
         ''73105678912345''
       = Some [''data'', ''json'', ''10086'', ''73105678912345.json'']"
proof -
  have a: "json_dir (default_env\<lparr>uid_to_name_map := [''10086'' \<mapsto> ''Alice'']\<rparr>)
             = json_dir default_env"
    by simp
  have b: "db_select_ok (default_env\<lparr>uid_to_name_map := [''10086'' \<mapsto> ''Alice'']\<rparr>)
             ''73105678912345''"
    by (simp add: default_env_def)
  have c: "video_index
             \<lparr>files = [[''data'', ''json'', ''10086'', ''73105678912345.json''] \<mapsto> Json spec_doc],
              video_index = [''73105678912345'' \<mapsto> ''10086''], trace = []\<rparr>
             ''73105678912345'' \<noteq> Some []"
    by simp
  from save_then_lookup [OF save_spec_doc a b c] save_spec_doc show ?thesis
    by simp
qed

text \<open>
  Why the folder name is taken to be non-empty: \<open>get_data_path\<close> tests the stored name
  with \<open>if result\<close>, so a row that records the empty name reads as a miss. With a table
  that maps the author to the empty name, the save succeeds and the lookup finds nothing.
\<close>

lemma lookup_drops_empty_folder:
  "fst (save_new_data (default_env\<lparr>uid_to_name_map := [''10086'' \<mapsto> []]\<rparr>) empty_world
          ''73105678912345'' spec_doc)
     = Inr [''data'', ''json'', [], ''73105678912345.json'']
   \<and> get_data_path (default_env\<lparr>uid_to_name_map := [''10086'' \<mapsto> []]\<rparr>)
         (snd (save_new_data (default_env\<lparr>uid_to_name_map := [''10086'' \<mapsto> []]\<rparr>)
                 empty_world ''73105678912345'' spec_doc))
         ''73105678912345'' = None"
  by (simp add: save_new_data_def folder_name_of_def py_get_def ebind_def truthy_def
        py_str_def default_env_def empty_world_def spec_doc_def Let_def get_data_path_def)

section \<open>Retrieval pipeline: a single video without URL\<close>

lemma resolves_download_try:
  assumes "resolves env w text w1 d"
  shows "download_try env w text
           = (case route d of
                Inl e \<Rightarrow> (Inl e, w1)
              | Inr ImageGallery \<Rightarrow> process_gallery env w1 d False
              | Inr MixedGallery \<Rightarrow> process_gallery env w1 d True
              | Inr SingleVideo \<Rightarrow> process_single_video env w1 d
              | Inr Unsupported \<Rightarrow> (Inr [], w1))"
  using assms
  by (auto simp: resolves_def download_try_def split: sum.splits prod.splits)

lemma resolves_cached:
  "truthy d \<Longrightarrow> db_select_ok env ''7310567891234567890'' \<Longrightarrow>
   json_dir env = [''data'', ''json''] \<Longrightarrow>
   resolves env (cached d) ''7310567891234567890'' (cached d) d"
  by (simp add: resolves_def parse_input_def py_strip_def py_isspace_def fullmatch_id_def
        is_digit_def Let_def fetch_aweme_data_def get_data_path_def path_exists_def
        cached_def aweme_detail_of_def py_get_def ebind_def)

text \<open>
  C7. For every input that resolves to a document routed to the single-video strategy
  whose video URL list is empty (or absent): \<open>_process_single_video\<close> raises before any
  request is sent, \<open>download\<close> returns the empty list, and a \<open>DownloadTask\<close> on that input
  returns with the job \<open>FAILED\<close> and the code \<open>DOWNLOAD_FAILED\<close>. The exception is the
  "no play address" \<open>ValueError\<close>, unless reading the author and description raised first.
\<close>

theorem empty_video_list_fails_job:
  assumes "resolves env w text w1 d"
      and "route d = Inr SingleVideo"
      and "video_url_list d = Inr ul"
      and "\<not> truthy ul"
      and "e = (case extract_metadata env d of Inl x \<Rightarrow> x | Inr m \<Rightarrow> NoPlayAddr)"
  shows "process_single_video env w1 d = (Inl e, w1)
       \<and> download env w text = (Inr [], emit (LogDownloadException text e) w1)
       \<and> fst (DownloadTask_run env (download env) j text w) = None
       \<and> status (fst (snd (DownloadTask_run env (download env) j text w))) = FAILED
       \<and> error (fst (snd (DownloadTask_run env (download env) j text w)))
           = Some \<lparr>code = DOWNLOAD_FAILED,
                   info_message = ''Download failed or no video found.'', detail = None\<rparr>"
proof -
  have t: "single_video_task env d = Inl e"
    using assms(3-5) by (auto simp: single_video_task_def ebind_def split: sum.splits)
  then have p: "process_single_video env w1 d = (Inl e, w1)"
    by (simp add: process_single_video_def)
  with assms(1,2) have d: "download env w text = (Inr [], emit (LogDownloadException text e) w1)"
    by (simp add: download_def resolves_download_try)
  from p d show ?thesis
    by (simp add: DownloadTask_run_def DownloadTask_try_def Let_def fail_def set_message_def)
qed

theorem empty_video_list_fails_job_witness:
  "resolves default_env (cached no_url_video) ''7310567891234567890'' (cached no_url_video)
     no_url_video
   \<and> route no_url_video = Inr SingleVideo
   \<and> video_url_list no_url_video = Inr (JArr [])
   \<and> \<not> truthy (JArr [])
   \<and> download default_env (cached no_url_video) ''7310567891234567890''
       = (Inr [], emit (LogDownloadException ''7310567891234567890'' NoPlayAddr)
                    (cached no_url_video))
   \<and> status (fst (snd (DownloadTask_run default_env (download default_env)
                          (new_job ''t'' ''7310567891234567890'' 0) ''7310567891234567890''
                          (cached no_url_video)))) = FAILED"
proof -
  have r: "resolves default_env (cached no_url_video) ''7310567891234567890''
             (cached no_url_video) no_url_video"
    by (rule resolves_cached) (simp_all add: no_url_video_def truthy_def default_env_def)
  have s: "route no_url_video = Inr SingleVideo"
    by (simp add: no_url_video_def route_def py_get_def ebind_def truthy_def py_eq_int_def
          Let_def)
  have u: "video_url_list no_url_video = Inr (JArr [])"
    by (simp add: no_url_video_def video_url_list_def py_get_def ebind_def)
  have n: "\<not> truthy (JArr [])"
    by (simp add: truthy_def)
  have e: "NoPlayAddr
             = (case extract_metadata default_env no_url_video of
                  Inl x \<Rightarrow> x | Inr m \<Rightarrow> NoPlayAddr)"
    by (simp add: no_url_video_def extract_metadata_def py_get_def ebind_def truthy_def
          default_env_def)
  from empty_video_list_fails_job [OF r s u n e, where j = "new_job ''t'' ''7310567891234567890'' 0"]
    r s u n
  show ?thesis by simp
qed

section \<open>Retrieval pipeline: a second run over existing files\<close>



lemma log_failures_no_failure:
  "log_failures w (zip ps (replicate n None)) = w"
proof (induction ps arbitrary: n)
  case Nil
  then show ?case by simp
next
  case (Cons a ps)
  then show ?case by (cases n) simp_all
qed

















section \<open>Retrieval pipeline: images saved as \<open>.heic\<close>\<close>

























section \<open>Retrieval pipeline: a batch with one failing pair\<close>

lemma download_file_plain:
  assumes "\<not> is_heic p"
  shows "\<exists>w'. download_file env w x p = ((if file_get env x p then None else Some HttpError), w')
            \<and> files w' = (files w)(p := (if file_get env x p then Some (Media x) else None))
            \<and> filter is_log (trace w') = filter is_log (trace w)"
  using assms
  by (auto simp: download_file_def emit_def Let_def is_log_def)

lemma try_urls_plain:
  assumes "\<not> is_heic p"
  shows "\<exists>w'. try_urls env w us p = (list_ex (\<lambda>x. file_get env x p) us, w')
            \<and> (\<forall>q. q \<noteq> p \<longrightarrow> files w' q = files w q)
            \<and> (us \<noteq> [] \<longrightarrow> path_exists w' p = list_ex (\<lambda>x. file_get env x p) us)
            \<and> filter is_log (trace w') = filter is_log (trace w)"
proof (induction us arbitrary: w)
  case Nil
  then show ?case by simp
next
  case (Cons x us)
  from download_file_plain [OF assms, of env w x] obtain w1 where
    d: "download_file env w x p = ((if file_get env x p then None else Some HttpError), w1)"
    and f: "files w1 = (files w)(p := (if file_get env x p then Some (Media x) else None))"
    and l: "filter is_log (trace w1) = filter is_log (trace w)"
    by blast
  show ?case
  proof (cases "file_get env x p")
    case True
    with d f l show ?thesis by (simp add: path_exists_def)
  next
    case False
    from Cons.IH [of w1] obtain w' where
      t: "try_urls env w1 us p = (list_ex (\<lambda>x. file_get env x p) us, w')"
      and o: "\<forall>q. q \<noteq> p \<longrightarrow> files w' q = files w1 q"
      and e: "us \<noteq> [] \<longrightarrow> path_exists w' p = list_ex (\<lambda>x. file_get env x p) us"
      and l': "filter is_log (trace w') = filter is_log (trace w1)"
      by blast
    have "us = [] \<Longrightarrow> w' = w1" using t by simp
    with False d f l t o e l' show ?thesis
      by (cases "us = []") (auto simp: path_exists_def)
  qed
qed

lemma not_heic_pending: "\<not> is_heic p \<Longrightarrow> heic_pending w p = Inr False"
  by (simp add: heic_pending_def)

lemma falsy_no_answer: "\<not> truthy u \<Longrightarrow> \<not> some_url_answers env u p"
  by (auto simp: some_url_answers_def py_iter_def truthy_def split: json.splits)

lemma truthy_iter_nonempty: "truthy u \<Longrightarrow> py_iter u = Inr us \<Longrightarrow> us \<noteq> []"
  by (auto simp: py_iter_def truthy_def split: json.splits)

lemma download_with_retry_plain:
  assumes "\<not> is_heic p"
  shows "\<exists>r w'. download_with_retry env w u p = (r, w')
            \<and> (r = None \<longleftrightarrow> path_exists w p \<or> some_url_answers env u p)
            \<and> (path_exists w' p \<longleftrightarrow> path_exists w p \<or> some_url_answers env u p)
            \<and> (\<forall>q. q \<noteq> p \<longrightarrow> files w' q = files w q)
            \<and> filter is_log (trace w') = filter is_log (trace w)"
proof (cases "path_exists w p")
  case True
  with assms show ?thesis
    by (simp add: download_with_retry_def not_heic_pending)
next
  case ne: False
  show ?thesis
  proof (cases "truthy u")
    case False
    with ne falsy_no_answer [OF False, of env p] show ?thesis
      by (simp add: download_with_retry_def)
  next
    case True
    show ?thesis
    proof (cases "py_iter u")
      case (Inl e)
      with ne True show ?thesis
        by (simp add: download_with_retry_def some_url_answers_def)
    next
      case (Inr us)
      from truthy_iter_nonempty [OF True Inr] have n: "us \<noteq> []" .
      from try_urls_plain [OF assms, of env w us] n obtain w' where
        t: "try_urls env w us p = (list_ex (\<lambda>x. file_get env x p) us, w')"
        and o: "\<forall>q. q \<noteq> p \<longrightarrow> files w' q = files w q"
        and e: "path_exists w' p = list_ex (\<lambda>x. file_get env x p) us"
        and l: "filter is_log (trace w') = filter is_log (trace w)"
        by blast
      from ne True Inr t o e l show ?thesis
        by (cases "list_ex (\<lambda>x. file_get env x p) us")
           (simp_all add: download_with_retry_def some_url_answers_def)
    qed
  qed
qed

lemma gather_plain_ok:
  assumes "\<forall>(u, p) \<in> set ts. \<not> is_heic p"
      and "distinct (map snd ts)"
      and "\<forall>(u, p) \<in> set ts. path_exists w p \<or> some_url_answers env u p"
  shows "\<exists>w'. gather env w ts = (replicate (length ts) None, w')
            \<and> (\<forall>(u, p) \<in> set ts. path_exists w' p)
            \<and> (\<forall>q. q \<notin> snd ` set ts \<longrightarrow> files w' q = files w q)
            \<and> filter is_log (trace w') = filter is_log (trace w)"
  using assms
proof (induction ts arbitrary: w)
  case Nil
  then show ?case by simp
next
  case (Cons t ts)
  obtain u p where t: "t = (u, p)" by (cases t)
  from Cons.prems t have np: "\<not> is_heic p" and ok: "path_exists w p \<or> some_url_answers env u p"
    and pn: "p \<notin> snd ` set ts" and di: "distinct (map snd ts)"
    and nh: "\<forall>(u, p) \<in> set ts. \<not> is_heic p"
    by auto
  from download_with_retry_plain [OF np, of env w u] ok obtain w1 where
    d: "download_with_retry env w u p = (None, w1)"
    and e: "path_exists w1 p"
    and o: "\<forall>q. q \<noteq> p \<longrightarrow> files w1 q = files w q"
    and l: "filter is_log (trace w1) = filter is_log (trace w)"
    by auto
  have ok1: "\<forall>(u, p) \<in> set ts. path_exists w1 p \<or> some_url_answers env u p"
  proof (clarify)
    fix u' p' assume m: "(u', p') \<in> set ts" and "\<not> some_url_answers env u' p'"
    with Cons.prems(3) have "path_exists w p'" by auto
    moreover from m pn have "p' \<noteq> p" by force
    ultimately show "path_exists w1 p'" using o by (simp add: path_exists_def)
  qed
  from Cons.IH [OF nh di ok1] obtain w' where
    g: "gather env w1 ts = (replicate (length ts) None, w')"
    and a: "\<forall>(u, p) \<in> set ts. path_exists w' p"
    and o': "\<forall>q. q \<notin> snd ` set ts \<longrightarrow> files w' q = files w1 q"
    and l': "filter is_log (trace w') = filter is_log (trace w1)"
    by blast
  have "gather env w (t # ts) = (replicate (length (t # ts)) None, w')"
    using t d g by simp
  moreover have "path_exists w' p"
    using e o' pn by (simp add: path_exists_def)
  moreover have "\<forall>q. q \<notin> snd ` set (t # ts) \<longrightarrow> files w' q = files w q"
    using o o' t by auto
  ultimately show ?case using a l l' t by auto
qed

lemma gather_append:
  "gather env w (xs @ ys)
     = (case gather env w xs of
          (rs, w1) \<Rightarrow> (case gather env w1 ys of (ss, w2) \<Rightarrow> (rs @ ss, w2)))"
  by (induction xs arbitrary: w) (auto split: prod.splits)

lemma log_failures_append:
  "log_failures w (xs @ ys) = log_failures (log_failures w xs) ys"
  by (induction w xs rule: log_failures.induct) simp_all

text \<open>
  C5, as amended. Take a batch whose destinations are pairwise distinct and none of
  which is a \<open>.heic\<close> file. If one pair has a destination that is not on disk and a URL
  list none of whose URLs answers (also an empty list), and every other pair has its
  destination on disk already or a URL that answers, then \<open>_batch_download\<close> returns
  exactly the destinations of the other pairs, in order, and writes one error record,
  for the failed destination. It raises nothing: \<open>gather\<close> collects the exceptions of
  the pairs as results.
\<close>

theorem batch_download_one_failure:
  assumes "distinct (map snd (pre @ (ub, pb) # post))"
      and "\<forall>(u, p) \<in> set (pre @ (ub, pb) # post). \<not> is_heic p"
      and "\<not> path_exists w pb"
      and "\<not> some_url_answers env ub pb"
      and "\<forall>(u, p) \<in> set (pre @ post). path_exists w p \<or> some_url_answers env u p"
  shows "fst (batch_download env w (pre @ (ub, pb) # post)) = map snd (pre @ post)
       \<and> (\<exists>e. filter is_log (trace (snd (batch_download env w (pre @ (ub, pb) # post))))
                  = filter is_log (trace w) @ [LogBatchFailure pb e])"
proof -
  have d1: "distinct (map snd pre)" and d2: "distinct (map snd post)"
    and b1: "pb \<notin> snd ` set pre" and b2: "pb \<notin> snd ` set post"
    and dj: "snd ` set pre \<inter> snd ` set post = {}"
    using assms(1) by auto
  have h1: "\<forall>(u, p) \<in> set pre. \<not> is_heic p" and hb: "\<not> is_heic pb"
    and h2: "\<forall>(u, p) \<in> set post. \<not> is_heic p"
    using assms(2) by auto
  have k1: "\<forall>(u, p) \<in> set pre. path_exists w p \<or> some_url_answers env u p"
    using assms(5) by auto
  from gather_plain_ok [OF h1 d1 k1] obtain w1 where
    g1: "gather env w pre = (replicate (length pre) None, w1)"
    and e1: "\<forall>(u, p) \<in> set pre. path_exists w1 p"
    and o1: "\<forall>q. q \<notin> snd ` set pre \<longrightarrow> files w1 q = files w q"
    and l1: "filter is_log (trace w1) = filter is_log (trace w)"
    by blast
  have nb: "\<not> path_exists w1 pb"
    using assms(3) o1 b1 by (simp add: path_exists_def)
  from download_with_retry_plain [OF hb, of env w1 ub] nb assms(4) obtain e w2 where
    gb: "download_with_retry env w1 ub pb = (Some e, w2)"
    and eb: "\<not> path_exists w2 pb"
    and ob: "\<forall>q. q \<noteq> pb \<longrightarrow> files w2 q = files w1 q"
    and lb: "filter is_log (trace w2) = filter is_log (trace w1)"
    by (metis not_Some_eq)
  have k2: "\<forall>(u, p) \<in> set post. path_exists w2 p \<or> some_url_answers env u p"
  proof (clarify)
    fix u p assume m: "(u, p) \<in> set post" and "\<not> some_url_answers env u p"
    with assms(5) have "path_exists w p" by auto
    moreover from m b2 have "p \<noteq> pb" by force
    moreover from m dj have "p \<notin> snd ` set pre" by force
    ultimately show "path_exists w2 p" using o1 ob by (simp add: path_exists_def)
  qed
  from gather_plain_ok [OF h2 d2 k2] obtain w3 where
    g2: "gather env w2 post = (replicate (length post) None, w3)"
    and e2: "\<forall>(u, p) \<in> set post. path_exists w3 p"
    and o2: "\<forall>q. q \<notin> snd ` set post \<longrightarrow> files w3 q = files w2 q"
    and l2: "filter is_log (trace w3) = filter is_log (trace w2)"
    by blast
  have g: "gather env w (pre @ (ub, pb) # post)
             = (replicate (length pre) None @ Some e # replicate (length post) None, w3)"
    using g1 gb g2 by (simp add: gather_append)
  define w4 where "w4 = log_failures w3
               (zip (map snd (pre @ (ub, pb) # post))
                  (replicate (length pre) None @ Some e # replicate (length post) None))"
  have z: "zip (map snd (pre @ (ub, pb) # post))
             (replicate (length pre) None @ Some e # replicate (length post) None)
           = zip (map snd pre) (replicate (length pre) None)
             @ (pb, Some e) # zip (map snd post) (replicate (length post) None)"
    by simp
  have w4: "w4 = emit (LogBatchFailure pb e) w3"
    unfolding w4_def z by (simp add: log_failures_append log_failures_no_failure)
  have bd: "batch_download env w (pre @ (ub, pb) # post)
              = (filter (path_exists w4) (map snd (pre @ (ub, pb) # post)), w4)"
    using g unfolding w4_def by (simp add: batch_download_def Let_def)
  have x4: "path_exists w4 = path_exists w3"
    by (rule ext) (simp add: w4 path_exists_def emit_def)
  have p1: "filter (path_exists w3) (map snd pre) = map snd pre"
  proof -
    have "\<forall>(u, p) \<in> set pre. path_exists w3 p"
    proof (clarify)
      fix u p assume m: "(u, p) \<in> set pre"
      with e1 have "path_exists w1 p" by auto
      moreover from m b1 have "p \<noteq> pb" by force
      moreover from m dj have "p \<notin> snd ` set post" by force
      ultimately show "path_exists w3 p" using ob o2 by (simp add: path_exists_def)
    qed
    then show ?thesis by (auto simp: filter_id_conv)
  qed
  have p2: "filter (path_exists w3) (map snd post) = map snd post"
    using e2 by (auto simp: filter_id_conv)
  have pbn: "\<not> path_exists w3 pb"
    using eb o2 b2 by (simp add: path_exists_def)
  have r: "fst (batch_download env w (pre @ (ub, pb) # post)) = map snd (pre @ post)"
    by (simp add: bd x4 p1 p2 pbn)
  have "filter is_log (trace (snd (batch_download env w (pre @ (ub, pb) # post))))
          = filter is_log (trace w) @ [LogBatchFailure pb e]"
    by (simp add: bd w4 l1 lb l2 emit_def is_log_def)
  with r show ?thesis by blast
qed

lemma mp4_not_heic:
  "\<not> is_heic [''data'', ''videos'', ''Alice'', ''album'', ''video_01.mp4'']"
  "\<not> is_heic [''data'', ''videos'', ''Alice'', ''album'', ''video_02.mp4'']"
  "\<not> is_heic [''data'', ''videos'', ''Alice'', ''album'', ''video_03.mp4'']"
  by (simp_all add: is_heic_def suffix_def path_name_def py_lower_def py_lower_char_def)

text \<open>
  C5, as stated, fails: a pair whose destination is on disk already is skipped before
  its URL list is looked at. In the batch below the one URL of the first pair never
  answers and the second pair succeeds; the first destination exists beforehand, so
  both destinations are returned, no request is sent for the first and no failure is
  logged.
\<close>

theorem batch_skips_existing_counterexample:
  "\<not> some_url_answers dead_mirror (JArr [JStr ''http://dead/1''])
       [''data'', ''videos'', ''Alice'', ''album'', ''video_01.mp4'']
   \<and> some_url_answers dead_mirror (JArr [JStr ''http://cdn/2''])
       [''data'', ''videos'', ''Alice'', ''album'', ''video_02.mp4'']
   \<and> batch_download dead_mirror
         (put_file [''data'', ''videos'', ''Alice'', ''album'', ''video_01.mp4'']
            (Media (JStr ''http://dead/1'')) empty_world)
         [(JArr [JStr ''http://dead/1''],
           [''data'', ''videos'', ''Alice'', ''album'', ''video_01.mp4'']),
          (JArr [JStr ''http://cdn/2''],
           [''data'', ''videos'', ''Alice'', ''album'', ''video_02.mp4''])]
       = ([[''data'', ''videos'', ''Alice'', ''album'', ''video_01.mp4''],
           [''data'', ''videos'', ''Alice'', ''album'', ''video_02.mp4'']],
          \<lparr>files = [[''data'', ''videos'', ''Alice'', ''album'', ''video_01.mp4'']
                       \<mapsto> Media (JStr ''http://dead/1''),
                     [''data'', ''videos'', ''Alice'', ''album'', ''video_02.mp4'']
                       \<mapsto> Media (JStr ''http://cdn/2'')],
           video_index = Map.empty,
           trace = [HttpGet (JStr ''http://cdn/2'')
                      [''data'', ''videos'', ''Alice'', ''album'', ''video_02.mp4'']]\<rparr>)"
  using mp4_not_heic
  by (simp add: some_url_answers_def py_iter_def dead_mirror_def default_env_def
        batch_download_def download_with_retry_def heic_pending_def download_file_def
        truthy_def path_exists_def emit_def put_file_def empty_world_def Let_def)

theorem batch_download_one_failure_witness:
  "distinct (map snd
      ([(JArr [JStr ''http://cdn/2''],
         [''data'', ''videos'', ''Alice'', ''album'', ''video_02.mp4''])]
       @ (JArr [JStr ''http://dead/1''],
          [''data'', ''videos'', ''Alice'', ''album'', ''video_01.mp4''])
       # [(JArr [JStr ''http://cdn/3''],
           [''data'', ''videos'', ''Alice'', ''album'', ''video_03.mp4''])]))
   \<and> \<not> path_exists empty_world [''data'', ''videos'', ''Alice'', ''album'', ''video_01.mp4'']
   \<and> \<not> some_url_answers dead_mirror (JArr [JStr ''http://dead/1''])
         [''data'', ''videos'', ''Alice'', ''album'', ''video_01.mp4'']
   \<and> some_url_answers dead_mirror (JArr [JStr ''http://cdn/2''])
         [''data'', ''videos'', ''Alice'', ''album'', ''video_02.mp4'']
   \<and> some_url_answers dead_mirror (JArr [JStr ''http://cdn/3''])
         [''data'', ''videos'', ''Alice'', ''album'', ''video_03.mp4'']
   \<and> fst (batch_download dead_mirror empty_world
         ([(JArr [JStr ''http://cdn/2''],
            [''data'', ''videos'', ''Alice'', ''album'', ''video_02.mp4''])]
          @ (JArr [JStr ''http://dead/1''],
             [''data'', ''videos'', ''Alice'', ''album'', ''video_01.mp4''])
          # [(JArr [JStr ''http://cdn/3''],
              [''data'', ''videos'', ''Alice'', ''album'', ''video_03.mp4''])]))
       = [[''data'', ''videos'', ''Alice'', ''album'', ''video_02.mp4''],
          [''data'', ''videos'', ''Alice'', ''album'', ''video_03.mp4'']]"
proof -
  let ?pre = "[(JArr [JStr ''http://cdn/2''],
               [''data'', ''videos'', ''Alice'', ''album'', ''video_02.mp4''])]"
  let ?post = "[(JArr [JStr ''http://cdn/3''],
                [''data'', ''videos'', ''Alice'', ''album'', ''video_03.mp4''])]"
  let ?ub = "JArr [JStr ''http://dead/1'']"
  let ?pb = "[''data'', ''videos'', ''Alice'', ''album'', ''video_01.mp4'']"
  have d: "distinct (map snd (?pre @ (?ub, ?pb) # ?post))" by simp
  have h: "\<forall>(u, p) \<in> set (?pre @ (?ub, ?pb) # ?post). \<not> is_heic p"
    using mp4_not_heic by simp
  have n: "\<not> path_exists empty_world ?pb"
    by (simp add: path_exists_def empty_world_def)
  have x: "\<not> some_url_answers dead_mirror ?ub ?pb"
    by (simp add: some_url_answers_def py_iter_def dead_mirror_def)
  have a2: "some_url_answers dead_mirror (JArr [JStr ''http://cdn/2''])
              [''data'', ''videos'', ''Alice'', ''album'', ''video_02.mp4'']"
    and a3: "some_url_answers dead_mirror (JArr [JStr ''http://cdn/3''])
              [''data'', ''videos'', ''Alice'', ''album'', ''video_03.mp4'']"
    by (simp_all add: some_url_answers_def py_iter_def dead_mirror_def)
  have o: "\<forall>(u, p) \<in> set (?pre @ ?post).
             path_exists empty_world p \<or> some_url_answers dead_mirror u p"
    using a2 a3 by simp
  from batch_download_one_failure [OF d h n x o] d n x a2 a3 show ?thesis
    by simp
qed

end
